theory Spec2Isabelle
  imports Main
begin

section \<open>Python values, exceptions and text formatting\<close>

text \<open>
  The values that travel through \<^verbatim>\<open>fitsio.py\<close> without being inspected: header card
  values, inline comments, history and comment lines, and the result of the format-code
  lookup (a string, or \<^verbatim>\<open>None\<close> when a dictionary \<^verbatim>\<open>get\<close> misses).  Floating-point
  card values are carried through the code untouched and are left out of the value type.
\<close>

datatype pyval = PyNone | PyBool bool | PyInt int | PyStr string

text \<open>The exceptions that the modelled code or the codec underneath it can raise.\<close>

datatype error = TypeError | KeyError | IndexError | ValueError | VerifyError | OtherError string

text \<open>
  \<^verbatim>\<open>"%i" % n\<close> for a non-negative integer (array extents and item sizes are never
  negative): the decimal digits of \<open>n\<close>, most significant first.
\<close>

definition digit_char :: "nat \<Rightarrow> char" where
  "digit_char d = ''0123456789'' ! d"

fun fmt_i :: "nat \<Rightarrow> string" where
  "fmt_i n = (if n < 10 then [digit_char n] else fmt_i (n div 10) @ [digit_char (n mod 10)])"

declare fmt_i.simps [simp del]

text \<open>\<^verbatim>\<open>"%s" % v\<close>: \<^verbatim>\<open>str(v)\<close> of a Python value.\<close>

fun fmt_s :: "pyval \<Rightarrow> string" where
  "fmt_s PyNone = ''None''"
| "fmt_s (PyBool b) = (if b then ''True'' else ''False'')"
| "fmt_s (PyInt i) = (if i < 0 then ''-'' @ fmt_i (nat (- i)) else fmt_i (nat i))"
| "fmt_s (PyStr s) = s"


section \<open>The format-code lookup\<close>

text \<open>
  The scalar types of numpy that a \<^verbatim>\<open>dtype.type\<close> can be.  The first fourteen are the keys
  of \<^verbatim>\<open>dtype_dict\<close>; \<open>np_string\<close> is \<^verbatim>\<open>np.string_\<close>, the fixed-width byte string; the
  remaining ones are numpy types that the lookup has no entry for.
\<close>

datatype np_type =
    np_uint8 | np_uint16 | np_uint32 | np_uint64
  | np_int8 | np_int16 | np_int32 | np_int64
  | np_float16 | np_float32 | np_float64
  | np_complex64 | np_complex128
  | np_bool
  | np_string
  | np_unicode | np_void | np_object | np_longdouble | np_clongdouble
  | np_datetime64 | np_timedelta64

record numpy_dtype =
  dtype_type :: np_type
  itemsize :: nat

text \<open>\<^verbatim>\<open>dtype_dict.get(np_type)\<close>: the table of lines 74-89, \<^verbatim>\<open>None\<close> for a missing key.\<close>

fun dtype_dict_get :: "np_type \<Rightarrow> pyval" where
  "dtype_dict_get np_uint8 = PyStr ''B''"
| "dtype_dict_get np_uint16 = PyStr ''J''"
| "dtype_dict_get np_uint32 = PyStr ''K''"
| "dtype_dict_get np_uint64 = PyStr ''K''"
| "dtype_dict_get np_int8 = PyStr ''I''"
| "dtype_dict_get np_int16 = PyStr ''I''"
| "dtype_dict_get np_int32 = PyStr ''J''"
| "dtype_dict_get np_int64 = PyStr ''K''"
| "dtype_dict_get np_float16 = PyStr ''E''"
| "dtype_dict_get np_float32 = PyStr ''E''"
| "dtype_dict_get np_float64 = PyStr ''D''"
| "dtype_dict_get np_complex64 = PyStr ''C''"
| "dtype_dict_get np_complex128 = PyStr ''M''"
| "dtype_dict_get np_bool = PyStr ''L''"
| "dtype_dict_get _ = PyNone"

text \<open>
  \<^verbatim>\<open>fits_format_code_lookup(numpy_dtype, numpy_shape)\<close>, lines 27-95.  The shape is the tuple
  of array extents.  \<^verbatim>\<open>numpy_shape[-1]\<close> is read only when the tuple has more than one
  entry, so the read never fails.  No statement of the function raises; the result type
  still has an error side because the callers run it inside code that can fail.
\<close>

definition fits_format_code_lookup :: "numpy_dtype \<Rightarrow> nat list \<Rightarrow> error + pyval" where
  "fits_format_code_lookup numpy_dtype numpy_shape =
    (let np_type = dtype_type numpy_dtype;
         fmt_len = (if length numpy_shape > 1 then last numpy_shape else 1)
     in if np_type = np_string then
          (if itemsize numpy_dtype = 1 then Inr (PyStr ''A'')
           else Inr (PyStr (fmt_i (itemsize numpy_dtype) @ ''A'')))
        else
          (let fmt_code = dtype_dict_get np_type
           in if fmt_len = 1 then Inr fmt_code
              else Inr (PyStr (fmt_i fmt_len @ fmt_s fmt_code))))"

text \<open>
  The element types the specification calls supported numeric/boolean types, each with the
  code its table gives (section 4.1), written after the specification and not after the
  code.
\<close>

definition spec_type_table :: "(np_type \<times> string) list" where
  "spec_type_table =
    [(np_uint8, ''B''), (np_int8, ''I''), (np_int16, ''I''), (np_uint16, ''J''),
     (np_int32, ''J''), (np_uint32, ''K''), (np_uint64, ''K''), (np_int64, ''K''),
     (np_float16, ''E''), (np_float32, ''E''), (np_float64, ''D''),
     (np_complex64, ''C''), (np_complex128, ''M''), (np_bool, ''L'')]"

text \<open>
  The fixed format-code alphabet of the specification (section 6): one of the letters
  \<^verbatim>\<open>L,X,B,I,J,K,A,E,D,C,M,P,Q\<close>, optionally preceded by a decimal repeat count.
\<close>

definition spec_code_in_alphabet :: "string \<Rightarrow> bool" where
  "spec_code_in_alphabet s =
    (s \<noteq> [] \<and> last s \<in> set ''LXBIJKAEDCMPQ'' \<and> list_all (\<lambda>c. c \<in> set ''0123456789'') (butlast s))"


section \<open>Dictionaries, loops and string helpers\<close>

text \<open>
  A Python dictionary that keeps insertion order: storing under a key already present
  replaces the value in place, storing under a new key appends.
\<close>

fun dict_set :: "'k \<Rightarrow> 'v \<Rightarrow> ('k \<times> 'v) list \<Rightarrow> ('k \<times> 'v) list" where
  "dict_set k v [] = [(k, v)]"
| "dict_set k v ((k', v') # d) = (if k' = k then (k, v) # d else (k', v') # dict_set k v d)"

type_synonym pydict = "(string \<times> pyval) list"

text \<open>A \<^verbatim>\<open>for\<close> loop whose body can raise: the first exception ends the loop.\<close>

fun run_loop :: "('s \<Rightarrow> 'x \<Rightarrow> error + 's) \<Rightarrow> 's \<Rightarrow> 'x list \<Rightarrow> error + 's" where
  "run_loop body s [] = Inr s"
| "run_loop body s (x # xs) = (case body s x of Inl e \<Rightarrow> Inl e | Inr s' \<Rightarrow> run_loop body s' xs)"

text \<open>\<^verbatim>\<open>s.endswith(suf)\<close> and \<^verbatim>\<open>s.strip()\<close> (leading and trailing ASCII whitespace removed).\<close>

definition py_endswith :: "string \<Rightarrow> string \<Rightarrow> bool" where
  "py_endswith s suf = (length suf \<le> length s \<and> drop (length s - length suf) s = suf)"

definition py_isspace :: "char \<Rightarrow> bool" where
  "py_isspace c = (c \<in> set [CHR '' '', CHR 0x09, CHR 0x0A, CHR 0x0B, CHR 0x0C, CHR 0x0D])"

definition py_strip :: "string \<Rightarrow> string" where
  "py_strip s = rev (dropWhile py_isspace (rev (dropWhile py_isspace s)))"


section \<open>The codec's objects\<close>

text \<open>
  The FITS codec (astropy) is outside the repository.  This section fixes the part of its
  contract that \<^verbatim>\<open>fitsio.py\<close> relies on.  A header is its list of cards, each a keyword,
  a value and an inline comment.  Keywords are taken as the codec stores them; the
  splitting of over-long values over several cards and the repair pass
  \<^verbatim>\<open>verify('fix')\<close>, which rewrites only cards that break the card rules, are not
  modelled: the cards of the model are the ones the repair pass leaves alone.
\<close>

type_synonym card = "string \<times> pyval \<times> pyval"

definition commentary_keywords :: "string set" where
  "commentary_keywords = {''HISTORY'', ''COMMENT'', []}"

text \<open>Put \<open>x\<close> right after the last element satisfying \<open>P\<close>, in front when there is none.\<close>

definition insert_after_last :: "('a \<Rightarrow> bool) \<Rightarrow> 'a \<Rightarrow> 'a list \<Rightarrow> 'a list" where
  "insert_after_last P x xs =
     rev (dropWhile (\<lambda>y. \<not> P y) (rev xs)) @ [x] @ rev (takeWhile (\<lambda>y. \<not> P y) (rev xs))"

text \<open>
  \<^verbatim>\<open>header.add_history(v)\<close>, \<^verbatim>\<open>header.add_comment(v)\<close>: a commentary card goes after the
  last card of the same keyword, at the end when there is none yet.
\<close>

definition header_add_commentary :: "string \<Rightarrow> pyval \<Rightarrow> card list \<Rightarrow> card list" where
  "header_add_commentary key v cs =
     (if key \<in> fst ` set cs then insert_after_last (\<lambda>c. fst c = key) (key, v, PyStr []) cs
      else cs @ [(key, v, PyStr [])])"

fun card_update :: "string \<Rightarrow> pyval \<Rightarrow> pyval \<Rightarrow> card list \<Rightarrow> card list" where
  "card_update key v c [] = []"
| "card_update key v c (x # xs) = (if fst x = key then (key, v, c) # xs else x # card_update key v c xs)"

text \<open>
  \<^verbatim>\<open>header[key] = (value, comment)\<close>: a commentary keyword adds a commentary card; a
  keyword already present has its first card updated; a new keyword is put after the last
  card that is not commentary.  This is what the codec does for a keyword that it takes as
  it stands: at most eight characters, all of them capital letters, digits, hyphens or
  underscores, and not END.  The codec turns a short keyword with small letters into
  capitals, stores a longer one in another card form, and refuses END and keywords with
  characters outside the card alphabet; the model does not follow it there.
\<close>

definition header_setitem :: "string \<Rightarrow> pyval \<times> pyval \<Rightarrow> card list \<Rightarrow> card list" where
  "header_setitem key vc cs =
     (if key \<in> commentary_keywords then header_add_commentary key (fst vc) cs
      else if key \<in> fst ` set cs then card_update key (fst vc) (snd vc) cs
      else insert_after_last (\<lambda>c. fst c \<notin> commentary_keywords) (key, fst vc, snd vc) cs)"

text \<open>
  A unit of a FITS document as \<^verbatim>\<open>read_fits\<close> and \<^verbatim>\<open>create_fits\<close> see it: its class (a
  \<open>GroupsHDU\<close> is also an instance of \<open>PrimaryHDU\<close>), its name, the cards of its header, the
  attributes \<^verbatim>\<open>size\<close> and \<^verbatim>\<open>is_image\<close>, the attribute \<^verbatim>\<open>data\<close> (reading it can raise, and
  it can be \<^verbatim>\<open>None\<close>), and for a table unit its column descriptors.
\<close>

datatype hdu_class = PrimaryHDU | GroupsHDU | ImageHDU | CompImageHDU | BinTableHDU | TableHDU

record 'd fits_column =
  fc_name :: string
  fc_format :: string
  fc_unit :: string
  fc_array :: 'd

record ('a, 'd) fits_hdu =
  hdu_class :: hdu_class
  hdu_name :: "string option"
  hdu_cards :: "card list"
  hdu_size :: nat
  hdu_is_image :: bool
  hdu_data :: "error + 'a option"
  hdu_columns :: "'d fits_column list"

definition isinstance_PrimaryHDU :: "('a, 'd) fits_hdu \<Rightarrow> bool" where
  "isinstance_PrimaryHDU h = (hdu_class h = PrimaryHDU \<or> hdu_class h = GroupsHDU)"

text \<open>\<^verbatim>\<open>hdu.data[:]\<close>: reading \<^verbatim>\<open>data\<close> can raise, and slicing \<^verbatim>\<open>None\<close> raises TypeError.\<close>

definition data_slice :: "('a, 'd) fits_hdu \<Rightarrow> error + 'a" where
  "data_slice h = (case hdu_data h of Inl e \<Rightarrow> Inl e | Inr None \<Rightarrow> Inl TypeError | Inr (Some d) \<Rightarrow> Inr d)"

text \<open>
  The constructors \<^verbatim>\<open>pf.PrimaryHDU()\<close> and \<^verbatim>\<open>pf.ImageHDU()\<close> with the structural cards
  the codec gives a new unit, and the assignments \<^verbatim>\<open>hdu.data = d\<close> and
  \<^verbatim>\<open>hdu.name = n\<close>.  The name setter stores the name in capitals, as the unit's name
  and as the value of the card EXTNAME.  The size of an attached array is the codec's
  business and a parameter here.  The cards that the codec recomputes from an attached
  array (BITPIX and the NAXIS family) are not tracked; the cards BSCALE and BZERO that it
  adds for some element types are part of \<open>pf_written_hdu\<close> below.
\<close>

definition PrimaryHDU_new :: "('a, 'd) fits_hdu" where
  "PrimaryHDU_new =
     \<lparr>hdu_class = PrimaryHDU, hdu_name = Some ''PRIMARY'',
      hdu_cards = [(''SIMPLE'', PyBool True, PyStr ''conforms to FITS standard''),
                   (''BITPIX'', PyInt 8, PyStr ''array data type''),
                   (''NAXIS'', PyInt 0, PyStr ''number of array dimensions''),
                   (''EXTEND'', PyBool True, PyStr [])],
      hdu_size = 0, hdu_is_image = True, hdu_data = Inr None, hdu_columns = []\<rparr>"

definition ImageHDU_new :: "('a, 'd) fits_hdu" where
  "ImageHDU_new =
     \<lparr>hdu_class = ImageHDU, hdu_name = Some [],
      hdu_cards = [(''XTENSION'', PyStr ''IMAGE'', PyStr ''Image extension''),
                   (''BITPIX'', PyInt 8, PyStr ''array data type''),
                   (''NAXIS'', PyInt 0, PyStr ''number of array dimensions''),
                   (''PCOUNT'', PyInt 0, PyStr ''number of parameters''),
                   (''GCOUNT'', PyInt 1, PyStr ''number of groups'')],
      hdu_size = 0, hdu_is_image = True, hdu_data = Inr None, hdu_columns = []\<rparr>"

definition set_data :: "('a \<Rightarrow> nat) \<Rightarrow> 'a \<Rightarrow> ('a, 'd) fits_hdu \<Rightarrow> ('a, 'd) fits_hdu" where
  "set_data array_size d h = h\<lparr>hdu_data := Inr (Some d), hdu_size := array_size d\<rparr>"

definition upper_char :: "char \<Rightarrow> char" where
  "upper_char c =
     (case map_of (zip ''abcdefghijklmnopqrstuvwxyz'' ''ABCDEFGHIJKLMNOPQRSTUVWXYZ'') c of
        Some u \<Rightarrow> u
      | None \<Rightarrow> c)"

definition py_upper :: "string \<Rightarrow> string" where
  "py_upper s = map upper_char s"

definition set_name :: "string \<Rightarrow> ('a, 'd) fits_hdu \<Rightarrow> ('a, 'd) fits_hdu" where
  "set_name n h =
     h\<lparr>hdu_name := Some (py_upper n),
       hdu_cards := header_setitem ''EXTNAME'' (PyStr (py_upper n), PyStr ''extension name'')
                      (hdu_cards h)\<rparr>"

text \<open>
  \<^verbatim>\<open>pf.Column(name, format, unit, array)\<close>: the codec refuses a missing format and a format
  that is not an optional repeat count followed by a letter of the format alphabet.
\<close>

definition tform_valid :: "string \<Rightarrow> bool" where
  "tform_valid s =
     (case dropWhile (\<lambda>c. c \<in> set ''0123456789'') s of
        [] \<Rightarrow> False
      | l # rest \<Rightarrow> l \<in> set ''LXBIJKAEDCMPQ'')"

definition pf_Column :: "string \<Rightarrow> pyval \<Rightarrow> string \<Rightarrow> 'd \<Rightarrow> error + 'd fits_column" where
  "pf_Column n fmt u arr =
     (case fmt of
        PyStr s \<Rightarrow> if tform_valid s
                    then Inr \<lparr>fc_name = n, fc_format = s, fc_unit = u, fc_array = arr\<rparr>
                    else Inl VerifyError
      | _ \<Rightarrow> Inl ValueError)"

text \<open>
  \<^verbatim>\<open>pf.BinTableHDU.from_columns(pf.ColDefs(cols))\<close>: a table unit with the structural cards
  of a binary table and the three per-column cards of every column, numbered from 1.  The
  two cards holding the byte length of a row and the number of rows are not tracked.
\<close>

definition column_cards :: "nat \<times> 'd fits_column \<Rightarrow> card list" where
  "column_cards ic =
     [(''TTYPE'' @ fmt_i (Suc (fst ic)), PyStr (fc_name (snd ic)), PyStr []),
      (''TFORM'' @ fmt_i (Suc (fst ic)), PyStr (fc_format (snd ic)), PyStr []),
      (''TUNIT'' @ fmt_i (Suc (fst ic)), PyStr (fc_unit (snd ic)), PyStr [])]"

definition BinTableHDU_from_columns :: "'d fits_column list \<Rightarrow> ('a, 'd) fits_hdu" where
  "BinTableHDU_from_columns cols =
     \<lparr>hdu_class = BinTableHDU, hdu_name = Some [],
      hdu_cards = [(''XTENSION'', PyStr ''BINTABLE'', PyStr ''binary table extension''),
                   (''BITPIX'', PyInt 8, PyStr ''array data type''),
                   (''NAXIS'', PyInt 2, PyStr ''number of array dimensions''),
                   (''PCOUNT'', PyInt 0, PyStr ''number of group parameters''),
                   (''GCOUNT'', PyInt 1, PyStr ''number of groups''),
                   (''TFIELDS'', PyInt (int (length cols)), PyStr ''number of table fields'')]
                  @ concat (map column_cards (enumerate 0 cols)),
      hdu_size = 0, hdu_is_image = False, hdu_data = Inr None, hdu_columns = cols\<rparr>"

text \<open>
  What \<^verbatim>\<open>pf.open\<close> gives for a document that has been written by \<^verbatim>\<open>writeto\<close> without
  checksum cards.  Read through the codec, the text of a string value has no trailing
  blanks and an inline comment has neither leading nor trailing blanks.  An image array is
  stored as it is when its element type is one the format has (unsigned 8-bit, signed 16-,
  32- and 64-bit, 32- and 64-bit float); for a signed 8-bit or an unsigned 16-, 32- or
  64-bit array the codec stores the array shifted and adds the cards BSCALE and BZERO; an
  array of another element type is refused.  (The codec acts on the element type when the
  array is attached, in lines 283 and 288; the model puts it where the document is
  written, which gives the same document, or the same refusal one step later.)  An array
  that is stored as it is comes back with the same shape and the same elements.  The
  element type of an array is the codec's business and a parameter here.
\<close>

definition rstrip_blanks :: "string \<Rightarrow> string" where
  "rstrip_blanks s = rev (dropWhile (\<lambda>c. c = CHR '' '') (rev s))"

definition written_card :: "card \<Rightarrow> card" where
  "written_card crd =
     (case crd of (k, v, c) \<Rightarrow>
        (k,
         (case v of PyStr s \<Rightarrow> PyStr (rstrip_blanks s) | _ \<Rightarrow> v),
         (case c of PyStr s \<Rightarrow> PyStr (rstrip_blanks (dropWhile (\<lambda>c. c = CHR '' '') s)) | _ \<Rightarrow> c)))"

definition native_image_types :: "np_type list" where
  "native_image_types = [np_uint8, np_int16, np_int32, np_int64, np_float32, np_float64]"

fun pseudo_zero :: "np_type \<Rightarrow> int option" where
  "pseudo_zero np_int8 = Some (- 128)"
| "pseudo_zero np_uint16 = Some 32768"
| "pseudo_zero np_uint32 = Some 2147483648"
| "pseudo_zero np_uint64 = Some 9223372036854775808"
| "pseudo_zero _ = None"

fun insert_after_key :: "string \<Rightarrow> card \<Rightarrow> card list \<Rightarrow> card list" where
  "insert_after_key key x [] = [x]"
| "insert_after_key key x (c # cs) = (if fst c = key then c # x # cs else c # insert_after_key key x cs)"

definition scale_cards :: "int \<Rightarrow> card list \<Rightarrow> card list" where
  "scale_cards z cs =
     insert_after_key ''BSCALE'' (''BZERO'', PyInt z, PyStr [])
       (if ''GCOUNT'' \<in> fst ` set cs
        then insert_after_key ''GCOUNT'' (''BSCALE'', PyInt 1, PyStr []) cs
        else header_setitem ''BSCALE'' (PyInt 1, PyStr []) cs)"

definition pf_written_hdu :: "('a \<Rightarrow> np_type) \<Rightarrow> ('a, 'd) fits_hdu \<Rightarrow> error + ('a, 'd) fits_hdu" where
  "pf_written_hdu array_type h =
     (case hdu_data h of
        Inr (Some d) \<Rightarrow>
          if array_type d \<in> set native_image_types
          then Inr (h\<lparr>hdu_cards := map written_card (hdu_cards h)\<rparr>)
          else (case pseudo_zero (array_type d) of
                  Some z \<Rightarrow> Inr (h\<lparr>hdu_cards := map written_card (scale_cards z (hdu_cards h))\<rparr>)
                | None \<Rightarrow> Inl KeyError)
      | _ \<Rightarrow> Inr (h\<lparr>hdu_cards := map written_card (hdu_cards h)\<rparr>))"

definition pf_open_written ::
  "('a \<Rightarrow> np_type) \<Rightarrow> ('a, 'd) fits_hdu list \<Rightarrow> error + ('a, 'd) fits_hdu list" where
  "pf_open_written array_type doc =
     run_loop (\<lambda>acc h. case pf_written_hdu array_type h of
                          Inl e \<Rightarrow> Inl e
                        | Inr h' \<Rightarrow> Inr (acc @ [h'])) [] doc"


section \<open>The container model\<close>

text \<open>
  Modelled from the spec: the module \<^verbatim>\<open>idi\<close> (the classes \<^verbatim>\<open>IdiHdulist\<close>,
  \<^verbatim>\<open>IdiPrimaryHdu\<close>, \<^verbatim>\<open>IdiImageHdu\<close>, \<^verbatim>\<open>IdiTableHdu\<close> and the three \<^verbatim>\<open>add_..._hdu\<close>
  methods) is not among the sources.  Section 3 of the specification has a unit carry a
  header model (entries, history, comment) and be one of three variants: Primary (no
  data), Image (an array) and Table (an ordered sequence of columns, each with a name, an
  element type, a shape, a unit token and data).  The container is an ordered mapping
  from unit name to unit, and an \<^verbatim>\<open>add\<close> method stores the new unit under its name.
\<close>

record ('u, 'd) idi_column =
  col_name :: string
  col_dtype :: numpy_dtype
  col_shape :: "nat list"
  col_unit :: 'u
  col_data :: 'd

datatype ('a, 'u, 'd) idi_body =
    IdiPrimaryHdu
  | IdiImageHdu 'a
  | IdiTableHdu "('u, 'd) idi_column list"

record ('a, 'u, 'd) idi_hdu =
  idi_header :: pydict
  idi_history :: "pyval list"
  idi_comment :: "pyval list"
  idi_body :: "('a, 'u, 'd) idi_body"

type_synonym ('a, 'u, 'd) IdiHdulist = "(string \<times> ('a, 'u, 'd) idi_hdu) list"

definition add_primary_hdu ::
  "string \<Rightarrow> pydict \<Rightarrow> pyval list \<Rightarrow> pyval list \<Rightarrow> ('a, 'u, 'd) IdiHdulist \<Rightarrow> ('a, 'u, 'd) IdiHdulist" where
  "add_primary_hdu n hdr hist comm hdul =
     dict_set n \<lparr>idi_header = hdr, idi_history = hist, idi_comment = comm, idi_body = IdiPrimaryHdu\<rparr> hdul"

definition add_image_hdu ::
  "string \<Rightarrow> 'a \<Rightarrow> pydict \<Rightarrow> pyval list \<Rightarrow> pyval list \<Rightarrow> ('a, 'u, 'd) IdiHdulist \<Rightarrow> ('a, 'u, 'd) IdiHdulist" where
  "add_image_hdu n d hdr hist comm hdul =
     dict_set n \<lparr>idi_header = hdr, idi_history = hist, idi_comment = comm, idi_body = IdiImageHdu d\<rparr> hdul"

definition add_table_hdu ::
  "string \<Rightarrow> ('u, 'd) idi_column list \<Rightarrow> pydict \<Rightarrow> pyval list \<Rightarrow> pyval list
     \<Rightarrow> ('a, 'u, 'd) IdiHdulist \<Rightarrow> ('a, 'u, 'd) IdiHdulist" where
  "add_table_hdu n cols hdr hist comm hdul =
     dict_set n \<lparr>idi_header = hdr, idi_history = hist, idi_comment = comm, idi_body = IdiTableHdu cols\<rparr> hdul"


section \<open>Header translation\<close>

definition restricted_header_keywords :: "string set" where
  "restricted_header_keywords =
     {''XTENSION'', ''BITPIX'', ''SIMPLE'', ''PCOUNT'', ''GCOUNT'',
      ''GROUPS'', ''EXTEND'', ''TFIELDS'', ''EXTNAME''}"

definition restricted_table_keywords :: "string set" where
  "restricted_table_keywords =
     {''TDISP'', ''TUNIT'', ''TTYPE'', ''TFORM'', ''TBCOL'',
      ''TNULL'', ''TSCAL'', ''TZERO'', ''NAXIS''}"

text \<open>
  The body of the first loop of \<^verbatim>\<open>write_headers\<close> (lines 113-128) for one item of the
  unit's header dictionary \<open>hdr\<close>, acting on the cards of the target unit.  The bare
  \<^verbatim>\<open>except\<close> turns a missing comment entry into the empty string.
\<close>

definition write_header_item :: "pydict \<Rightarrow> card list \<Rightarrow> string \<times> pyval \<Rightarrow> card list" where
  "write_header_item hdr cs kv =
     (let key = fst kv; val = snd kv;
          comment = (case map_of hdr (key @ ''_COMMENT'') of Some c \<Rightarrow> c | None \<Rightarrow> PyStr []);
          is_comment = py_endswith key ''_COMMENT'';
          is_table = (take 5 key \<in> restricted_table_keywords);
          is_table' = (is_table \<or> take 4 key = ''TDIM'' \<or> key = ''TFIELDS'');
          is_basic = (key \<in> restricted_header_keywords)
      in if is_comment \<or> is_table' \<or> is_basic then cs
         else header_setitem key (val, comment) cs)"

text \<open>
  \<^verbatim>\<open>write_headers(hduobj, idiobj)\<close>, lines 97-137: the header items, then the history
  lines, then the comment lines.
\<close>

definition write_headers :: "('a, 'd) fits_hdu \<Rightarrow> ('b, 'u, 'e) idi_hdu \<Rightarrow> ('a, 'd) fits_hdu" where
  "write_headers hduobj idiobj =
     hduobj\<lparr>hdu_cards :=
       foldl (\<lambda>cs commline. header_add_commentary ''COMMENT'' commline cs)
         (foldl (\<lambda>cs histline. header_add_commentary ''HISTORY'' histline cs)
            (foldl (write_header_item (idi_header idiobj)) (hdu_cards hduobj) (idi_header idiobj))
            (idi_history idiobj))
         (idi_comment idiobj)\<rparr>"

text \<open>
  The reserved keys as the specification lists them (section 6), and the triples that the
  header export is to write according to section 4.3: one for every entry whose key
  neither ends with the comment suffix nor is reserved, with the comment looked up under
  the key followed by \<^verbatim>\<open>_COMMENT\<close> and empty when there is none.  Both are written after
  the specification, for comparison with \<^verbatim>\<open>write_headers\<close>.
\<close>

definition spec_reserved :: "string \<Rightarrow> bool" where
  "spec_reserved key =
     (key \<in> {''XTENSION'', ''BITPIX'', ''SIMPLE'', ''PCOUNT'', ''GCOUNT'', ''GROUPS'',
              ''EXTEND'', ''TFIELDS'', ''EXTNAME''}
      \<or> take 5 key \<in> {''TDISP'', ''TUNIT'', ''TTYPE'', ''TFORM'', ''TBCOL'', ''TNULL'',
                        ''TSCAL'', ''TZERO'', ''NAXIS''}
      \<or> take 4 key = ''TDIM'' \<or> key = ''TFIELDS'')"

definition spec_written :: "pydict \<Rightarrow> card list" where
  "spec_written entries =
     map (\<lambda>kv. (fst kv, snd kv,
                 case map_of entries (fst kv @ ''_COMMENT'') of Some c \<Rightarrow> c | None \<Rightarrow> PyStr []))
       (filter (\<lambda>kv. \<not> py_endswith (fst kv) ''_COMMENT'' \<and> \<not> spec_reserved (fst kv)) entries)"

definition commentary_card :: "string \<Rightarrow> pyval \<Rightarrow> card" where
  "commentary_card key line = (key, line, PyStr [])"

text \<open>
  The body of the loop of \<^verbatim>\<open>parse_fits_header\<close> (lines 163-181) for one card, acting on
  the three accumulators \<^verbatim>\<open>history\<close>, \<^verbatim>\<open>comment\<close> and \<^verbatim>\<open>header\<close>.
\<close>

definition parse_card ::
  "pyval list \<times> pyval list \<times> pydict \<Rightarrow> card \<Rightarrow> pyval list \<times> pyval list \<times> pydict" where
  "parse_card acc crd =
     (case acc of (history, comment, header) \<Rightarrow>
      case crd of (card_id0, card_val, card_comment) \<Rightarrow>
        let card_id = py_strip card_id0;
            comment_id = card_id @ ''_COMMENT''
        in if card_id = [] \<or> card_id = '' '' then (history, comment, header)
           else if card_id \<in> restricted_header_keywords then (history, comment, header)
           else if take 5 card_id \<in> restricted_table_keywords then (history, comment, header)
           else if card_id = ''HISTORY'' then (history @ [card_val], comment, header)
           else if card_id = ''COMMENT'' then (history, comment @ [card_val], header)
           else (history, comment,
                 dict_set comment_id card_comment (dict_set card_id card_val header)))"

text \<open>
  \<^verbatim>\<open>parse_fits_header(hdul)\<close>, lines 139-183.  The result is the triple of line 183:
  header, comment, history, in this order.
\<close>

definition parse_fits_header :: "('a, 'd) fits_hdu \<Rightarrow> pydict \<times> pyval list \<times> pyval list" where
  "parse_fits_header hdul =
     (case foldl parse_card ([], [], []) (hdu_cards hdul) of
        (history, comment, header) \<Rightarrow> (header, comment, history))"


section \<open>Import\<close>

text \<open>
  One pass of the loop of \<^verbatim>\<open>read_fits\<close> (lines 207-246) over the unit \<open>hdul_fits\<close>, with
  the counter \<open>ii\<close> and the container built so far as state.  Line 212 binds the three
  results of \<^verbatim>\<open>parse_fits_header\<close> to the names \<^verbatim>\<open>header, history, comment\<close>, in this
  order.  The name given in line 209 also reaches the unit's header as an EXTNAME card,
  which line 171 drops again.

  \<open>name_is_blank\<close> is the test of line 208, \<open>default_name\<close> gives the name and the
  counter after lines 208-210.

  Two things the loop uses are outside the sources and are parameters: \<open>group_table\<close>,
  what \<^verbatim>\<open>add_table_hdu\<close> makes of the raw data of a random-groups unit, and \<open>table_read\<close>,
  the result of \<^verbatim>\<open>Table.read(infile, hdu=name)\<close> wrapped by \<^verbatim>\<open>IdiTableHdu(name, ...)\<close>.
\<close>

definition name_is_blank :: "string option \<Rightarrow> bool" where
  "name_is_blank n = (n = Some [] \<or> n = None \<or> n = Some '' '')"

definition default_name :: "nat \<Rightarrow> string option \<Rightarrow> string \<times> nat" where
  "default_name ii n =
     (if name_is_blank n then (''HDU'' @ fmt_i ii, ii + 1)
      else (case n of Some s \<Rightarrow> (s, ii) | None \<Rightarrow> (''HDU'' @ fmt_i ii, ii + 1)))"

definition read_hdu ::
  "('a \<Rightarrow> ('u, 'd) idi_column list) \<Rightarrow> (string \<Rightarrow> error + ('u, 'd) idi_column list)
     \<Rightarrow> nat \<times> ('a, 'u, 'd) IdiHdulist \<Rightarrow> ('a, 'e) fits_hdu
     \<Rightarrow> error + nat \<times> ('a, 'u, 'd) IdiHdulist" where
  "read_hdu group_table table_read st hdul_fits =
     (case st of (ii0, hdul_idi) \<Rightarrow>
      case default_name ii0 (hdu_name hdul_fits) of (name, ii) \<Rightarrow>
      case parse_fits_header hdul_fits of (header, history, comment) \<Rightarrow>
        if hdu_class hdul_fits = ImageHDU \<or> isinstance_PrimaryHDU hdul_fits then
          (case (if hdu_size hdul_fits = 0 then
                   Inr (add_primary_hdu name header history comment hdul_idi)
                 else if hdu_is_image hdul_fits then
                   (case data_slice hdul_fits of
                      Inl e \<Rightarrow> Inl e
                    | Inr d \<Rightarrow> Inr (add_image_hdu name d header history comment hdul_idi))
                 else
                   (case data_slice hdul_fits of
                      Inl e \<Rightarrow> Inl e
                    | Inr d \<Rightarrow> Inr (add_table_hdu name (group_table d) header history comment hdul_idi)))
           of Inl TypeError \<Rightarrow> Inr (ii, add_primary_hdu name header history comment hdul_idi)
            | Inl e \<Rightarrow> Inl e
            | Inr hdul' \<Rightarrow> Inr (ii, hdul'))
        else if hdu_class hdul_fits = CompImageHDU then
          (case data_slice hdul_fits of
             Inl e \<Rightarrow> Inl e
           | Inr d \<Rightarrow> Inr (ii, add_image_hdu name d header history comment hdul_idi))
        else
          (case table_read name of
             Inl e \<Rightarrow> Inl e
           | Inr idi_tbl \<Rightarrow> Inr (ii, add_table_hdu name idi_tbl header history comment hdul_idi)))"

text \<open>\<^verbatim>\<open>read_fits\<close>, lines 186-248, on the list of units that \<^verbatim>\<open>pf.open(infile)\<close> gives.\<close>

definition read_fits ::
  "('a \<Rightarrow> ('u, 'd) idi_column list) \<Rightarrow> (string \<Rightarrow> error + ('u, 'd) idi_column list)
     \<Rightarrow> ('a, 'e) fits_hdu list \<Rightarrow> error + ('a, 'u, 'd) IdiHdulist" where
  "read_fits group_table table_read ff =
     (case run_loop (read_hdu group_table table_read) (0, []) ff of
        Inl e \<Rightarrow> Inl e
      | Inr (ii, hdul_idi) \<Rightarrow> Inr hdul_idi)"


section \<open>Export\<close>

text \<open>
  The clock reading of line 312 and \<^verbatim>\<open>now.strftime("%Y-%M-%dT%H:%M")\<close> of line 313:
  \<^verbatim>\<open>%Y\<close> is the year, \<^verbatim>\<open>%M\<close> the minute, \<^verbatim>\<open>%d\<close> the day of the month, \<^verbatim>\<open>%H\<close> the hour,
  the last three as two digits.  (\<^verbatim>\<open>%m\<close> would be the month.)
\<close>

record datetime =
  year :: nat
  month :: nat
  day :: nat
  hour :: nat
  minute :: nat

definition pad2 :: "nat \<Rightarrow> string" where
  "pad2 n = (if n < 10 then ''0'' @ fmt_i n else fmt_i n)"

definition now_str :: "datetime \<Rightarrow> string" where
  "now_str now =
     fmt_i (year now) @ ''-'' @ pad2 (minute now) @ ''-'' @ pad2 (day now)
       @ ''T'' @ pad2 (hour now) @ '':'' @ pad2 (minute now)"

text \<open>
  The timestamp the specification asks for (section 4.5): year, month, day, \<^verbatim>\<open>T\<close>, hour,
  \<^verbatim>\<open>:\<close>, minute.
\<close>

definition spec_now_str :: "datetime \<Rightarrow> string" where
  "spec_now_str now =
     fmt_i (year now) @ ''-'' @ pad2 (month now) @ ''-'' @ pad2 (day now)
       @ ''T'' @ pad2 (hour now) @ '':'' @ pad2 (minute now)"

text \<open>
  Lines 295-300: the column descriptor of one column.  \<^verbatim>\<open>unit_conversion.units_to_fits\<close>
  is outside the sources and is a parameter.
\<close>

definition make_fits_col :: "('u \<Rightarrow> string) \<Rightarrow> ('u, 'd) idi_column \<Rightarrow> error + 'd fits_column" where
  "make_fits_col units_to_fits col =
     (case fits_format_code_lookup (col_dtype col) (col_shape col) of
        Inl e \<Rightarrow> Inl e
      | Inr fits_fmt \<Rightarrow> pf_Column (col_name col) fits_fmt (units_to_fits (col_unit col)) (col_data col))"

text \<open>
  One pass of the loop of \<^verbatim>\<open>create_fits\<close> (lines 269-308) over the item \<open>(name, idiobj)\<close>
  of the container, with the list of units built so far as state.  The head of the
  \<^verbatim>\<open>elif\<close> in line 292 lacks its closing colon, so Python rejects the file as it stands;
  the model follows the branch as it is laid out, with the colon in place.
  \<^verbatim>\<open>hdulist.insert(0, h)\<close> puts \<open>h\<close> in front and \<^verbatim>\<open>hdulist.append(h)\<close> puts it at the end; what else the codec does
  to a list that does not start with a primary unit is not modelled.
\<close>

definition create_hdu ::
  "('u \<Rightarrow> string) \<Rightarrow> ('a \<Rightarrow> nat) \<Rightarrow> ('a, 'd) fits_hdu list \<Rightarrow> string \<times> ('a, 'u, 'd) idi_hdu
     \<Rightarrow> error + ('a, 'd) fits_hdu list" where
  "create_hdu units_to_fits array_size hdulist item =
     (case item of (name, idiobj) \<Rightarrow>
      case idi_body idiobj of
        IdiPrimaryHdu \<Rightarrow> Inr (write_headers PrimaryHDU_new idiobj # hdulist)
      | IdiImageHdu d \<Rightarrow>
          if name = ''PRIMARY''
          then Inr (set_data array_size d (write_headers PrimaryHDU_new idiobj) # hdulist)
          else Inr (hdulist @ [set_name name (set_data array_size d (write_headers ImageHDU_new idiobj))])
      | IdiTableHdu cols \<Rightarrow>
          (case run_loop (\<lambda>fits_cols col.
                   case make_fits_col units_to_fits col of
                     Inl e \<Rightarrow> Inl e
                   | Inr fits_col \<Rightarrow> Inr (fits_cols @ [fits_col])) [] cols of
             Inl e \<Rightarrow> Inl e
           | Inr fits_cols \<Rightarrow>
               Inr (hdulist @ [set_name name (write_headers (BinTableHDU_from_columns fits_cols) idiobj)])))"

text \<open>
  \<^verbatim>\<open>create_fits\<close>, lines 250-315, with the clock reading as an argument.  \<^verbatim>\<open>hdulist[0]\<close>
  raises IndexError on an empty list.
\<close>

definition create_fits ::
  "('u \<Rightarrow> string) \<Rightarrow> ('a \<Rightarrow> nat) \<Rightarrow> datetime \<Rightarrow> ('a, 'u, 'd) IdiHdulist
     \<Rightarrow> error + ('a, 'd) fits_hdu list" where
  "create_fits units_to_fits array_size now hdul =
     (case run_loop (create_hdu units_to_fits array_size) [] hdul of
        Inl e \<Rightarrow> Inl e
      | Inr [] \<Rightarrow> Inl IndexError
      | Inr (h # hs) \<Rightarrow>
          Inr (h\<lparr>hdu_cards :=
                   header_add_commentary ''HISTORY''
                     (PyStr (''File written by fits2hdf '' @ now_str now)) (hdu_cards h)\<rparr> # hs))"


section \<open>Auxiliary notions for the proofs\<close>

text \<open>
  The names that the loop of \<^verbatim>\<open>read_fits\<close> gives to a sequence of units, starting with
  counter \<open>ii\<close>, and the keys of an ordered dictionary after storing under the key \<open>n\<close>.
\<close>

fun names_from :: "nat \<Rightarrow> string option list \<Rightarrow> string list" where
  "names_from ii [] = []"
| "names_from ii (n # ns) = fst (default_name ii n) # names_from (snd (default_name ii n)) ns"

definition keys_ins :: "string list \<Rightarrow> string \<Rightarrow> string list" where
  "keys_ins ks n = (if n \<in> set ks then ks else ks @ [n])"


























text \<open>
  Parameters for the concrete runs.  With arrays given as lists of numbers: no unit
  converter is needed, a random-groups unit has no columns, the table reader finds no
  table, and every array has 32-bit integers as elements.  With arrays given as an element
  type and a list of numbers: the table reader finds the one table EVENTS with a column of
  32-bit floats.
\<close>

definition example_units_to_fits :: "unit \<Rightarrow> string" where
  "example_units_to_fits u = []"

definition example_group_table :: "nat list \<Rightarrow> (unit, unit) idi_column list" where
  "example_group_table a = []"

definition example_table_read :: "string \<Rightarrow> error + (unit, unit) idi_column list" where
  "example_table_read n = Inl KeyError"


definition typed_array_size :: "np_type \<times> nat list \<Rightarrow> nat" where
  "typed_array_size a = length (snd a)"

definition typed_array_type :: "np_type \<times> nat list \<Rightarrow> np_type" where
  "typed_array_type a = fst a"

definition typed_group_table :: "np_type \<times> nat list \<Rightarrow> (unit, nat list) idi_column list" where
  "typed_group_table a = []"

definition events_column :: "(unit, nat list) idi_column" where
  "events_column =
     \<lparr>col_name = ''ENERGY'', col_dtype = \<lparr>dtype_type = np_float32, itemsize = 4\<rparr>,
      col_shape = [3], col_unit = (), col_data = [7, 8, 9]\<rparr>"

definition events_table_read :: "string \<Rightarrow> error + (unit, nat list) idi_column list" where
  "events_table_read n = (if n = ''EVENTS'' then Inr [events_column] else Inl KeyError)"


section \<open>Properties of the format-code lookup\<close>

lemma digit_char_digit: "d < 10 \<Longrightarrow> digit_char d \<in> set ''0123456789''"
proof -
  assume "d < 10"
  then have "d \<in> {0, 1, 2, 3, 4, 5, 6, 7, 8, 9}" by auto
  then show ?thesis by (auto simp: digit_char_def)
qed

lemma fmt_i_digits: "list_all (\<lambda>c. c \<in> set ''0123456789'') (fmt_i n)"
proof (induction n rule: fmt_i.induct)
  case (1 n)
  show ?case
  proof (cases "n < 10")
    case True
    then show ?thesis
      using digit_char_digit [of n] by (subst fmt_i.simps) simp
  next
    case False
    then show ?thesis
      using 1 digit_char_digit [of "n mod 10"] by (subst fmt_i.simps) simp
  qed
qed

lemma spec_type_table_lookup:
  "(t, c) \<in> set spec_type_table \<Longrightarrow> dtype_dict_get t = PyStr c \<and> t \<noteq> np_string"
  by (auto simp: spec_type_table_def)

lemma spec_type_table_letter:
  "(t, c) \<in> set spec_type_table \<Longrightarrow> \<exists>l. c = [l] \<and> l \<in> set ''LXBIJKAEDCMPQ''"
  by (auto simp: spec_type_table_def)

text \<open>
  C3.  Every element type of the specification's table is encoded by the letter the table
  gives.  A column whose shape has at most one entry, or whose last extent is 1, gets the
  bare letter; a column whose shape has more than one entry and whose last extent \<open>n\<close> is
  greater than 1 gets the decimal digits of \<open>n\<close> followed by the letter.  A 64-bit float
  column of shape \<open>(N,)\<close> gets \<^verbatim>\<open>D\<close>, one of shape \<open>(N,5)\<close> gets \<^verbatim>\<open>5D\<close>.
\<close>

theorem format_code_table:
  assumes "(t, c) \<in> set spec_type_table"
  shows "((length shape \<le> 1 \<or> last shape = 1) \<longrightarrow>
            fits_format_code_lookup \<lparr>dtype_type = t, itemsize = sz\<rparr> shape = Inr (PyStr c)) \<and>
         ((length shape > 1 \<and> last shape > 1) \<longrightarrow>
            fits_format_code_lookup \<lparr>dtype_type = t, itemsize = sz\<rparr> shape
              = Inr (PyStr (fmt_i (last shape) @ c))) \<and>
         spec_type_table =
           [(np_uint8, ''B''), (np_int8, ''I''), (np_int16, ''I''), (np_uint16, ''J''),
            (np_int32, ''J''), (np_uint32, ''K''), (np_uint64, ''K''), (np_int64, ''K''),
            (np_float16, ''E''), (np_float32, ''E''), (np_float64, ''D''),
            (np_complex64, ''C''), (np_complex128, ''M''), (np_bool, ''L'')] \<and>
         fits_format_code_lookup \<lparr>dtype_type = np_float64, itemsize = 8\<rparr> [N]
           = Inr (PyStr ''D'') \<and>
         fits_format_code_lookup \<lparr>dtype_type = np_float64, itemsize = 8\<rparr> [N, 5]
           = Inr (PyStr ''5D'')"
proof (intro conjI impI)
  assume "length shape \<le> 1 \<or> last shape = 1"
  with spec_type_table_lookup [OF assms]
  show "fits_format_code_lookup \<lparr>dtype_type = t, itemsize = sz\<rparr> shape = Inr (PyStr c)"
    by (auto simp: fits_format_code_lookup_def Let_def)
next
  assume "length shape > 1 \<and> last shape > 1"
  with spec_type_table_lookup [OF assms]
  show "fits_format_code_lookup \<lparr>dtype_type = t, itemsize = sz\<rparr> shape
          = Inr (PyStr (fmt_i (last shape) @ c))"
    by (auto simp: fits_format_code_lookup_def Let_def)
next
  show "spec_type_table =
           [(np_uint8, ''B''), (np_int8, ''I''), (np_int16, ''I''), (np_uint16, ''J''),
            (np_int32, ''J''), (np_uint32, ''K''), (np_uint64, ''K''), (np_int64, ''K''),
            (np_float16, ''E''), (np_float32, ''E''), (np_float64, ''D''),
            (np_complex64, ''C''), (np_complex128, ''M''), (np_bool, ''L'')]"
    by (simp add: spec_type_table_def)
next
  show "fits_format_code_lookup \<lparr>dtype_type = np_float64, itemsize = 8\<rparr> [N]
          = Inr (PyStr ''D'')"
    by (simp add: fits_format_code_lookup_def)
next
  have "fmt_i 5 = ''5''" by (simp add: fmt_i.simps digit_char_def)
  then show "fits_format_code_lookup \<lparr>dtype_type = np_float64, itemsize = 8\<rparr> [N, 5]
          = Inr (PyStr ''5D'')"
    by (simp add: fits_format_code_lookup_def)
qed

theorem format_code_table_witness:
  "(np_uint16, ''J'') \<in> set spec_type_table \<and>
   fits_format_code_lookup \<lparr>dtype_type = np_uint16, itemsize = 2\<rparr> [7, 1] = Inr (PyStr ''J'') \<and>
   fits_format_code_lookup \<lparr>dtype_type = np_uint16, itemsize = 2\<rparr> [7, 12] = Inr (PyStr ''12J'')"
proof -
  have m: "(np_uint16, ''J'') \<in> set spec_type_table" by (simp add: spec_type_table_def)
  have f: "fmt_i 12 = ''12''" by (simp add: fmt_i.simps digit_char_def)
  from format_code_table [OF m, of "[7, 1]" 2] format_code_table [OF m, of "[7, 12]" 2] m f
  show ?thesis by simp
qed

text \<open>
  C4, as the code has it.  For an element type that is neither in the table nor the
  fixed-width text type the lookup raises nothing: it returns \<^verbatim>\<open>None\<close> when the shape has
  at most one entry or the last extent is 1, and otherwise the decimal last extent followed
  by the text \<^verbatim>\<open>None\<close>.  For every type of the table and for the text type the returned code
  lies in the format-code alphabet.
\<close>

theorem format_code_unsupported:
  "(t \<notin> fst ` set spec_type_table \<and> t \<noteq> np_string \<longrightarrow>
      fits_format_code_lookup \<lparr>dtype_type = t, itemsize = sz\<rparr> shape
        = (if length shape > 1 \<and> last shape \<noteq> 1
           then Inr (PyStr (fmt_i (last shape) @ ''None'')) else Inr PyNone)) \<and>
   (t \<in> fst ` set spec_type_table \<or> t = np_string \<longrightarrow>
      (\<exists>s. fits_format_code_lookup \<lparr>dtype_type = t, itemsize = sz\<rparr> shape = Inr (PyStr s)
           \<and> spec_code_in_alphabet s))"
proof (intro conjI impI)
  assume a: "t \<notin> fst ` set spec_type_table \<and> t \<noteq> np_string"
  then have "dtype_dict_get t = PyNone"
    by (cases t) (auto simp: spec_type_table_def)
  with a show "fits_format_code_lookup \<lparr>dtype_type = t, itemsize = sz\<rparr> shape
        = (if length shape > 1 \<and> last shape \<noteq> 1
           then Inr (PyStr (fmt_i (last shape) @ ''None'')) else Inr PyNone)"
    by (simp add: fits_format_code_lookup_def Let_def)
next
  assume a: "t \<in> fst ` set spec_type_table \<or> t = np_string"
  show "\<exists>s. fits_format_code_lookup \<lparr>dtype_type = t, itemsize = sz\<rparr> shape = Inr (PyStr s)
           \<and> spec_code_in_alphabet s"
  proof (cases "t = np_string")
    case True
    then show ?thesis
      using fmt_i_digits [of sz]
      by (simp add: fits_format_code_lookup_def spec_code_in_alphabet_def)
  next
    case False
    with a obtain c where tc: "(t, c) \<in> set spec_type_table" by auto
    from spec_type_table_letter [OF tc] obtain l
      where l: "c = [l]" "l \<in> set ''LXBIJKAEDCMPQ''" by blast
    from spec_type_table_lookup [OF tc] l fmt_i_digits [of "last shape"] False
    show ?thesis
      by (simp add: fits_format_code_lookup_def spec_code_in_alphabet_def Let_def)
  qed
qed

theorem format_code_unsupported_witness:
  "np_datetime64 \<notin> fst ` set spec_type_table \<and> np_datetime64 \<noteq> np_string \<and>
   fits_format_code_lookup \<lparr>dtype_type = np_datetime64, itemsize = 8\<rparr> [4] = Inr PyNone \<and>
   np_int32 \<in> fst ` set spec_type_table \<and>
   (\<exists>s. fits_format_code_lookup \<lparr>dtype_type = np_int32, itemsize = 4\<rparr> [4, 3] = Inr (PyStr s)
        \<and> spec_code_in_alphabet s)"
proof -
  have a: "np_datetime64 \<notin> fst ` set spec_type_table \<and> np_datetime64 \<noteq> np_string"
    by (simp add: spec_type_table_def)
  have b: "np_int32 \<in> fst ` set spec_type_table"
    by (simp add: spec_type_table_def)
  from format_code_unsupported [of np_datetime64 8 "[4]"] a
  have 1: "fits_format_code_lookup \<lparr>dtype_type = np_datetime64, itemsize = 8\<rparr> [4] = Inr PyNone"
    by simp
  from format_code_unsupported [of np_int32 4 "[4, 3]"] b
  have 2: "\<exists>s. fits_format_code_lookup \<lparr>dtype_type = np_int32, itemsize = 4\<rparr> [4, 3]
             = Inr (PyStr s) \<and> spec_code_in_alphabet s"
    by blast
  from a b 1 2 show ?thesis by blast
qed

text \<open>
  The claim C4 as stated fails for an object column of shape \<open>(3,5)\<close>: the element type has
  no entry in the table and is not text, yet the lookup returns a value instead of raising,
  and the value returned, \<^verbatim>\<open>5None\<close>, is outside the alphabet.
\<close>

theorem format_code_unsupported_counterexample:
  "np_object \<notin> fst ` set spec_type_table \<and> np_object \<noteq> np_string \<and>
   \<not> isl (fits_format_code_lookup \<lparr>dtype_type = np_object, itemsize = 8\<rparr> [3, 5]) \<and>
   fits_format_code_lookup \<lparr>dtype_type = np_object, itemsize = 8\<rparr> [3, 5]
     = Inr (PyStr ''5None'') \<and>
   \<not> spec_code_in_alphabet ''5None''"
proof -
  have "fmt_i 5 = ''5''" by (simp add: fmt_i.simps digit_char_def)
  then show ?thesis
    by (simp add: fits_format_code_lookup_def spec_type_table_def spec_code_in_alphabet_def)
qed

text \<open>
  C10.  For the fixed-width text type the code depends on the item size alone: \<^verbatim>\<open>A\<close> for
  size 1 and the decimal size followed by \<^verbatim>\<open>A\<close> otherwise, whatever the shape; the
  repeat count of the last axis is never put in front of it.
\<close>

theorem format_code_text:
  "dtype_type dt = np_string \<Longrightarrow>
     fits_format_code_lookup dt shape
       = Inr (PyStr (if itemsize dt = 1 then ''A'' else fmt_i (itemsize dt) @ ''A''))"
  by (simp add: fits_format_code_lookup_def)

theorem format_code_text_witness:
  "dtype_type \<lparr>dtype_type = np_string, itemsize = 16\<rparr> = np_string \<and>
   fits_format_code_lookup \<lparr>dtype_type = np_string, itemsize = 16\<rparr> [10, 4]
     = Inr (PyStr ''16A'')"
proof -
  have f: "fmt_i 16 = ''16''" by (simp add: fmt_i.simps digit_char_def)
  from format_code_text [of "\<lparr>dtype_type = np_string, itemsize = 16\<rparr>" "[10, 4]"] f
  show ?thesis by simp
qed

section \<open>Concrete runs of import and export\<close>

text \<open>
  C9.  The export of a container holding one empty primary unit, with the clock reading
  2026-11-04 10:37, adds exactly one HISTORY card to the first unit.  Its text is the fixed
  message followed by \<^verbatim>\<open>2026-37-04T10:37\<close>: the field after the year holds the minute,
  where the timestamp of the specification has the month.
\<close>

theorem provenance_month_is_minute:
  "create_fits example_units_to_fits (length :: nat list \<Rightarrow> nat)
      \<lparr>year = 2026, month = 11, day = 4, hour = 10, minute = 37\<rparr>
      [(''PRIMARY'', \<lparr>idi_header = [], idi_history = [], idi_comment = [],
                       idi_body = (IdiPrimaryHdu :: (nat list, unit, unit) idi_body)\<rparr>)]
   = Inr [\<lparr>hdu_class = PrimaryHDU, hdu_name = Some ''PRIMARY'',
           hdu_cards = [(''SIMPLE'', PyBool True, PyStr ''conforms to FITS standard''),
                        (''BITPIX'', PyInt 8, PyStr ''array data type''),
                        (''NAXIS'', PyInt 0, PyStr ''number of array dimensions''),
                        (''EXTEND'', PyBool True, PyStr []),
                        (''HISTORY'', PyStr ''File written by fits2hdf 2026-37-04T10:37'', PyStr [])],
           hdu_size = 0, hdu_is_image = True, hdu_data = Inr None, hdu_columns = []\<rparr>]
   \<and> spec_now_str \<lparr>year = 2026, month = 11, day = 4, hour = 10, minute = 37\<rparr>
       = ''2026-11-04T10:37''"
  by code_simp

text \<open>
  C2.  The import of a document whose only unit has one HISTORY card and one COMMENT card
  puts the value of the COMMENT card into the unit's history and the value of the HISTORY
  card into the unit's comment: line 212 unpacks the result of \<^verbatim>\<open>parse_fits_header\<close> in
  the order header, history, comment, while line 183 returns header, comment, history.
\<close>

theorem history_comment_swapped:
  "read_fits example_group_table example_table_read
     [\<lparr>hdu_class = PrimaryHDU, hdu_name = Some ''PRIMARY'',
       hdu_cards = [(''HISTORY'', PyStr ''calibrated'', PyStr []),
                    (''COMMENT'', PyStr ''observer note'', PyStr [])],
       hdu_size = 0, hdu_is_image = True, hdu_data = Inr None,
       hdu_columns = ([] :: unit fits_column list)\<rparr>]
   = Inr [(''PRIMARY'', \<lparr>idi_header = [], idi_history = [PyStr ''observer note''],
                          idi_comment = [PyStr ''calibrated''], idi_body = IdiPrimaryHdu\<rparr>)]"
  by code_simp

text \<open>
  C5.  \<^verbatim>\<open>parse_fits_header\<close> on the header of a table unit with the cards TFIELDS, TDIM1
  and OBSERVER drops TFIELDS and keeps OBSERVER with its comment, and it keeps TDIM1 and
  TDIM1_COMMENT as well: the test of line 173 looks at the first five characters only, and
  the test for the prefix TDIM that \<^verbatim>\<open>write_headers\<close> makes in line 122 is missing here.
\<close>

theorem parse_keeps_TDIM:
  "parse_fits_header
     \<lparr>hdu_class = BinTableHDU, hdu_name = Some ''EVENTS'',
       hdu_cards = [(''TFIELDS'', PyInt 1, PyStr []),
                    (''TDIM1'', PyStr ''(2,3)'', PyStr []),
                    (''OBSERVER'', PyStr ''E. Hubble'', PyStr ''who'')],
       hdu_size = 0, hdu_is_image = False, hdu_data = Inr (None :: nat list option),
       hdu_columns = ([] :: unit fits_column list)\<rparr>
   = ([(''TDIM1'', PyStr ''(2,3)''), (''TDIM1_COMMENT'', PyStr []),
       (''OBSERVER'', PyStr ''E. Hubble''), (''OBSERVER_COMMENT'', PyStr ''who'')], [], [])"
  by code_simp

section \<open>Unit names given by the import\<close>

lemma dict_set_keys: "map fst (dict_set k v d) = (if k \<in> fst ` set d then map fst d else map fst d @ [k])"
proof (induction d)
  case Nil
  show ?case by simp
next
  case (Cons p d)
  obtain k' v' where p: "p = (k', v')" by (cases p)
  show ?case
  proof (cases "k' = k")
    case True
    then show ?thesis by (simp add: p)
  next
    case False
    then show ?thesis using Cons by (auto simp: p)
  qed
qed

lemma read_hdu_step:
  assumes "read_hdu gt tr (ii, hdul) h = Inr (ii', hdul')"
  shows "ii' = snd (default_name ii (hdu_name h)) \<and>
         map fst hdul' = (if fst (default_name ii (hdu_name h)) \<in> fst ` set hdul then map fst hdul
                          else map fst hdul @ [fst (default_name ii (hdu_name h))])"
proof -
  obtain nm i2 where dn: "default_name ii (hdu_name h) = (nm, i2)" by (cases "default_name ii (hdu_name h)")
  obtain hd hi co where pf: "parse_fits_header h = (hd, hi, co)" by (cases "parse_fits_header h") auto
  from assms have "ii' = i2 \<and> (\<exists>u. hdul' = dict_set nm u hdul)"
    by (auto simp: read_hdu_def dn pf add_primary_hdu_def add_image_hdu_def add_table_hdu_def
             split: if_splits sum.splits error.splits)
  then obtain u where "ii' = i2" "hdul' = dict_set nm u hdul" by blast
  then show ?thesis by (simp add: dn dict_set_keys)
qed

lemma read_loop_keys:
  "run_loop (read_hdu gt tr) (ii, hdul) ff = Inr (ii', hdul') \<Longrightarrow>
     map fst hdul' = foldl keys_ins (map fst hdul) (names_from ii (map hdu_name ff))"
proof (induction ff arbitrary: ii hdul)
  case Nil
  then show ?case by simp
next
  case (Cons h ff)
  from Cons.prems obtain i2 h2 where st: "read_hdu gt tr (ii, hdul) h = Inr (i2, h2)"
    and rest: "run_loop (read_hdu gt tr) (i2, h2) ff = Inr (ii', hdul')"
    by (auto split: sum.splits)
  from read_hdu_step [OF st] have "i2 = snd (default_name ii (hdu_name h))"
    and "map fst h2 = keys_ins (map fst hdul) (fst (default_name ii (hdu_name h)))"
    by (auto simp: keys_ins_def)
  with Cons.IH [OF rest] show ?case by simp
qed

lemma foldl_ins_length:
  "length (foldl keys_ins ks ns) \<le> length ks + length ns"
proof (induction ns arbitrary: ks)
  case Nil show ?case by simp
next
  case (Cons n ns)
  have "length (keys_ins ks n) \<le> length ks + 1" by (simp add: keys_ins_def)
  with Cons [of "keys_ins ks n"] show ?case by simp
qed

lemma foldl_ins_full:
  "length (foldl keys_ins ks ns) = length ks + length ns \<Longrightarrow> foldl keys_ins ks ns = ks @ ns"
proof (induction ns arbitrary: ks)
  case Nil show ?case by simp
next
  case (Cons n ns)
  show ?case
  proof (cases "n \<in> set ks")
    case True
    then have "keys_ins ks n = ks" by (simp add: keys_ins_def)
    with foldl_ins_length [of ks ns] Cons.prems show ?thesis by simp
  next
    case False
    then have i: "keys_ins ks n = ks @ [n]" by (simp add: keys_ins_def)
    with Cons.prems have "length (foldl keys_ins (ks @ [n]) ns) = length (ks @ [n]) + length ns" by simp
    from Cons.IH [OF this] i show ?thesis by simp
  qed
qed

lemma names_from_nth:
  "j < length ns \<Longrightarrow> name_is_blank (ns ! j) \<Longrightarrow>
     names_from ii ns ! j = ''HDU'' @ fmt_i (ii + length (filter name_is_blank (take j ns)))"
proof (induction ns arbitrary: ii j)
  case Nil then show ?case by simp
next
  case (Cons n ns)
  show ?case
  proof (cases j)
    case 0
    with Cons.prems show ?thesis by (auto simp: default_name_def name_is_blank_def)
  next
    case (Suc j')
    with Cons.prems have "j' < length ns" "name_is_blank (ns ! j')" by auto
    from Cons.IH [OF this] Suc show ?thesis
      by (auto simp: default_name_def name_is_blank_def split: option.splits)
  qed
qed

lemma names_from_length: "length (names_from ii ns) = length ns"
  by (induction ns arbitrary: ii) auto

lemma foldl_ins_set: "set (foldl keys_ins ks ns) = set ks \<union> set ns"
  by (induction ns arbitrary: ks) (auto simp: keys_ins_def)

text \<open>
  C8.  When the import succeeds, a unit whose name is blank (empty, missing or one space)
  is stored under \<^verbatim>\<open>HDU\<close> followed by the decimal number of blank-named units before it
  in the document, whatever named units stand in between: the container has an entry
  under that name, and when no two units ended up under the same name (the container has
  as many entries as the document has units) it is the entry at the unit's position.  The
  third blank-named unit is therefore stored as \<^verbatim>\<open>HDU2\<close>.
\<close>

theorem blank_names_numbered:
  assumes rd: "read_fits gt tr ff = Inr hdul"
      and j: "j < length ff"
      and blank: "name_is_blank (hdu_name (ff ! j))"
  shows "''HDU'' @ fmt_i (length (filter (\<lambda>h. name_is_blank (hdu_name h)) (take j ff)))
           \<in> fst ` set hdul
         \<and> (length hdul = length ff \<longrightarrow>
              fst (hdul ! j)
                = ''HDU'' @ fmt_i (length (filter (\<lambda>h. name_is_blank (hdu_name h)) (take j ff))))"
proof -
  let ?names = "names_from 0 (map hdu_name ff)"
  let ?n = "''HDU'' @ fmt_i (length (filter (\<lambda>h. name_is_blank (hdu_name h)) (take j ff)))"
  from rd obtain ii' where "run_loop (read_hdu gt tr) (0, []) ff = Inr (ii', hdul)"
    by (auto simp: read_fits_def split: sum.splits)
  from read_loop_keys [OF this]
  have k: "map fst hdul = foldl keys_ins [] ?names" by simp
  have "?names ! j = ''HDU'' @ fmt_i (0 + length (filter name_is_blank (take j (map hdu_name ff))))"
    using j blank by (intro names_from_nth) auto
  moreover have "filter name_is_blank (take j (map hdu_name ff))
               = map hdu_name (filter (\<lambda>h. name_is_blank (hdu_name h)) (take j ff))"
    by (simp add: take_map filter_map comp_def)
  ultimately have nth: "?names ! j = ?n" by simp
  from j have "?names ! j \<in> set ?names" by (simp add: names_from_length)
  with nth have "?n \<in> set (foldl keys_ins [] ?names)" by (simp add: foldl_ins_set)
  with k have stored: "?n \<in> fst ` set hdul" by (metis set_map)
  have "fst (hdul ! j) = ?n" if len: "length hdul = length ff"
  proof -
    from k len have "length (foldl keys_ins [] ?names) = length ([] :: string list) + length ?names"
      by (simp add: names_from_length) (metis length_map)
    from foldl_ins_full [OF this] k have eq: "map fst hdul = ?names" by simp
    from j len have "fst (hdul ! j) = map fst hdul ! j" by simp
    with eq nth show ?thesis by simp
  qed
  with stored show ?thesis by blast
qed

theorem blank_names_numbered_witness:
  "read_fits example_group_table example_table_read
     [\<lparr>hdu_class = PrimaryHDU, hdu_name = Some ''PRIMARY'', hdu_cards = [], hdu_size = 0,
        hdu_is_image = True, hdu_data = Inr None, hdu_columns = ([] :: unit fits_column list)\<rparr>,
      \<lparr>hdu_class = ImageHDU, hdu_name = Some [], hdu_cards = [], hdu_size = 8,
        hdu_is_image = True, hdu_data = Inr (Some [1, 2]), hdu_columns = []\<rparr>,
      \<lparr>hdu_class = ImageHDU, hdu_name = Some ''SCI'', hdu_cards = [], hdu_size = 0,
        hdu_is_image = True, hdu_data = Inr None, hdu_columns = []\<rparr>,
      \<lparr>hdu_class = ImageHDU, hdu_name = None, hdu_cards = [], hdu_size = 0,
        hdu_is_image = True, hdu_data = Inr None, hdu_columns = []\<rparr>,
      \<lparr>hdu_class = ImageHDU, hdu_name = Some '' '', hdu_cards = [], hdu_size = 0,
        hdu_is_image = True, hdu_data = Inr None, hdu_columns = []\<rparr>]
   = Inr [(''PRIMARY'', \<lparr>idi_header = [], idi_history = [], idi_comment = [], idi_body = IdiPrimaryHdu\<rparr>),
          (''HDU0'', \<lparr>idi_header = [], idi_history = [], idi_comment = [], idi_body = IdiImageHdu [1, 2]\<rparr>),
          (''SCI'', \<lparr>idi_header = [], idi_history = [], idi_comment = [], idi_body = IdiPrimaryHdu\<rparr>),
          (''HDU1'', \<lparr>idi_header = [], idi_history = [], idi_comment = [], idi_body = IdiPrimaryHdu\<rparr>),
          (''HDU2'', \<lparr>idi_header = [], idi_history = [], idi_comment = [], idi_body = IdiPrimaryHdu\<rparr>)]
   \<and> ''HDU2'' = ''HDU'' @ fmt_i (length (filter (\<lambda>h. name_is_blank (hdu_name h)) (take 4
     [\<lparr>hdu_class = PrimaryHDU, hdu_name = Some ''PRIMARY'', hdu_cards = [], hdu_size = 0,
        hdu_is_image = True, hdu_data = Inr None, hdu_columns = ([] :: unit fits_column list)\<rparr>,
      \<lparr>hdu_class = ImageHDU, hdu_name = Some [], hdu_cards = [], hdu_size = 8,
        hdu_is_image = True, hdu_data = Inr (Some [1, 2::nat]), hdu_columns = []\<rparr>,
      \<lparr>hdu_class = ImageHDU, hdu_name = Some ''SCI'', hdu_cards = [], hdu_size = 0,
        hdu_is_image = True, hdu_data = Inr None, hdu_columns = []\<rparr>,
      \<lparr>hdu_class = ImageHDU, hdu_name = None, hdu_cards = [], hdu_size = 0,
        hdu_is_image = True, hdu_data = Inr None, hdu_columns = []\<rparr>,
      \<lparr>hdu_class = ImageHDU, hdu_name = Some '' '', hdu_cards = [], hdu_size = 0,
        hdu_is_image = True, hdu_data = Inr None, hdu_columns = []\<rparr>])))"
  (is "read_fits ?gt ?tr ?ff = Inr ?hdul \<and> _")
proof -
  have rd: "read_fits ?gt ?tr ?ff = Inr ?hdul" by code_simp
  have len: "length ?hdul = length ?ff" by simp
  have j: "4 < length ?ff" by simp
  have bl: "name_is_blank (hdu_name (?ff ! 4))" by (simp add: name_is_blank_def)
  from blank_names_numbered [OF rd j bl] len rd show ?thesis by simp
qed

section \<open>The TypeError fallback of the import\<close>

text \<open>
  The pass of \<^verbatim>\<open>read_fits\<close> over a unit of class ImageHDU or PrimaryHDU with a non-zero
  size.  \<^verbatim>\<open>parse_fits_header\<close> returns the header entries, the values of the COMMENT
  cards and the values of the HISTORY cards, in this order.  When reading the data raises
  TypeError the pass does not fail and stores a Primary unit; any other exception ends the
  pass; when the data can be read an Image unit (or the Table unit of a random-groups unit)
  is stored.  In each case the unit gets the values of the COMMENT cards as its history and
  the values of the HISTORY cards as its comment.
\<close>

lemma read_hdu_image_branch:
  assumes img: "hdu_class h = ImageHDU \<or> isinstance_PrimaryHDU h"
      and nz: "hdu_size h \<noteq> 0"
      and nm: "default_name ii (hdu_name h) = (name, ii')"
      and pf: "parse_fits_header h = (header, comment_values, history_values)"
  shows "(data_slice h = Inl TypeError \<longrightarrow>
            read_hdu gt tr (ii, hdul) h
              = Inr (ii', dict_set name
                       \<lparr>idi_header = header, idi_history = comment_values,
                        idi_comment = history_values, idi_body = IdiPrimaryHdu\<rparr> hdul)) \<and>
         (data_slice h = Inl e \<and> e \<noteq> TypeError \<longrightarrow>
            read_hdu gt tr (ii, hdul) h = Inl e) \<and>
         (data_slice h = Inr d \<longrightarrow>
            read_hdu gt tr (ii, hdul) h
              = Inr (ii', dict_set name
                       \<lparr>idi_header = header, idi_history = comment_values,
                        idi_comment = history_values,
                        idi_body = (if hdu_is_image h then IdiImageHdu d else IdiTableHdu (gt d))\<rparr>
                       hdul))"
proof (intro conjI impI)
  assume "data_slice h = Inl TypeError"
  with img nz show "read_hdu gt tr (ii, hdul) h
      = Inr (ii', dict_set name
               \<lparr>idi_header = header, idi_history = comment_values,
                idi_comment = history_values, idi_body = IdiPrimaryHdu\<rparr> hdul)"
    by (simp add: read_hdu_def nm pf add_primary_hdu_def)
next
  assume "data_slice h = Inl e \<and> e \<noteq> TypeError"
  with img nz show "read_hdu gt tr (ii, hdul) h = Inl e"
    by (cases e) (simp_all add: read_hdu_def nm pf)
next
  assume "data_slice h = Inr d"
  with img nz show "read_hdu gt tr (ii, hdul) h
      = Inr (ii', dict_set name
               \<lparr>idi_header = header, idi_history = comment_values,
                idi_comment = history_values,
                idi_body = (if hdu_is_image h then IdiImageHdu d else IdiTableHdu (gt d))\<rparr>
               hdul)"
    by (simp add: read_hdu_def nm pf add_image_hdu_def add_table_hdu_def)
qed

text \<open>
  C7.  The import of a document whose only unit is a primary random-groups unit of
  non-zero size without data, where reading the data raises TypeError, does not fail: the
  unit is stored as a Primary unit with its header entry.  The history and comment lines
  are not kept as they are: the value of the HISTORY card is stored as the unit's comment
  and the value of the COMMENT card as its history, by the unpacking of line 212.  An
  exception of another type from the same place is not caught and ends the import.
\<close>

theorem typeerror_fallback_exchanges_history:
  "read_fits example_group_table example_table_read
     [\<lparr>hdu_class = GroupsHDU, hdu_name = Some ''PRIMARY'',
       hdu_cards = [(''OBSERVER'', PyStr ''E. Hubble'', PyStr ''who''),
                    (''HISTORY'', PyStr ''calibrated'', PyStr []),
                    (''COMMENT'', PyStr ''observer note'', PyStr [])],
       hdu_size = 2880, hdu_is_image = False, hdu_data = Inr None,
       hdu_columns = ([] :: unit fits_column list)\<rparr>]
   = Inr [(''PRIMARY'',
           \<lparr>idi_header = [(''OBSERVER'', PyStr ''E. Hubble''), (''OBSERVER_COMMENT'', PyStr ''who'')],
            idi_history = [PyStr ''observer note''], idi_comment = [PyStr ''calibrated''],
            idi_body = IdiPrimaryHdu\<rparr>)]
   \<and> read_fits example_group_table example_table_read
     [\<lparr>hdu_class = GroupsHDU, hdu_name = Some ''PRIMARY'',
       hdu_cards = [(''OBSERVER'', PyStr ''E. Hubble'', PyStr ''who''),
                    (''HISTORY'', PyStr ''calibrated'', PyStr []),
                    (''COMMENT'', PyStr ''observer note'', PyStr [])],
       hdu_size = 2880, hdu_is_image = False, hdu_data = Inl (OtherError ''OSError''),
       hdu_columns = ([] :: unit fits_column list)\<rparr>]
   = Inl (OtherError ''OSError'')"
  by code_simp

section \<open>Header export\<close>

lemma write_items_filter:
  "foldl (write_header_item hdr) cs items
     = foldl (\<lambda>cs w. header_setitem (fst w) (snd w) cs) cs
         (map (\<lambda>kv. (fst kv, snd kv,
                 case map_of hdr (fst kv @ ''_COMMENT'') of Some c \<Rightarrow> c | None \<Rightarrow> PyStr []))
            (filter (\<lambda>kv. \<not> py_endswith (fst kv) ''_COMMENT'' \<and> \<not> spec_reserved (fst kv)) items))"
proof (induction items arbitrary: cs)
  case Nil
  show ?case by simp
next
  case (Cons kv items)
  have r: "spec_reserved (fst kv) =
        ((take 5 (fst kv) \<in> restricted_table_keywords \<or> take 4 (fst kv) = ''TDIM'' \<or> fst kv = ''TFIELDS'')
          \<or> fst kv \<in> restricted_header_keywords)"
    unfolding spec_reserved_def restricted_table_keywords_def restricted_header_keywords_def by blast
  show ?case
  proof (cases "py_endswith (fst kv) ''_COMMENT'' \<or> spec_reserved (fst kv)")
    case True
    then have "write_header_item hdr cs kv = cs"
      unfolding r write_header_item_def Let_def by auto
    with True Cons.IH [of cs] show ?thesis by auto
  next
    case False
    then have "write_header_item hdr cs kv
       = header_setitem (fst kv) (snd kv, case map_of hdr (fst kv @ ''_COMMENT'') of Some c \<Rightarrow> c | None \<Rightarrow> PyStr []) cs"
      unfolding r write_header_item_def Let_def by auto
    with False Cons.IH show ?thesis by auto
  qed
qed

lemma insert_after_last_end:
  "xs = [] \<or> P (last xs) \<Longrightarrow> insert_after_last P x xs = xs @ [x]"
  by (cases xs rule: rev_cases) (auto simp: insert_after_last_def)

lemma spec_reserved_not_commentary: "spec_reserved k \<Longrightarrow> k \<notin> commentary_keywords"
  by (auto simp: spec_reserved_def commentary_keywords_def)

lemma setitem_new:
  assumes "k \<notin> commentary_keywords" "k \<notin> fst ` set cs" "\<forall>c \<in> set cs. fst c \<notin> commentary_keywords"
  shows "header_setitem k (v, c) cs = cs @ [(k, v, c)]"
proof -
  from assms(3) have "cs = [] \<or> fst (last cs) \<notin> commentary_keywords" by (cases cs rule: rev_cases) auto
  then have "insert_after_last (\<lambda>c. fst c \<notin> commentary_keywords) (k, v, c) cs = cs @ [(k, v, c)]"
    by (rule insert_after_last_end)
  with assms(1,2) show ?thesis by (simp add: header_setitem_def)
qed

lemma setitems_new:
  assumes "distinct (map fst ws)" "fst ` set ws \<inter> fst ` set cs = {}"
    "\<forall>w \<in> set ws. fst w \<notin> commentary_keywords" "\<forall>c \<in> set cs. fst c \<notin> commentary_keywords"
  shows "foldl (\<lambda>cs w. header_setitem (fst w) (snd w) cs) cs ws = cs @ ws"
  using assms
proof (induction ws arbitrary: cs)
  case Nil
  show ?case by simp
next
  case (Cons w ws)
  obtain k v c where w: "w = (k, v, c)" by (cases w)
  from Cons.prems have s: "header_setitem k (v, c) cs = cs @ [(k, v, c)]"
    by (intro setitem_new) (auto simp: w)
  have "foldl (\<lambda>cs w. header_setitem (fst w) (snd w) cs) (cs @ [(k, v, c)]) ws
          = (cs @ [(k, v, c)]) @ ws"
    using Cons.prems by (intro Cons.IH) (auto simp: w)
  with s show ?case by (simp add: w)
qed

lemma add_commentary_run:
  assumes "key \<notin> fst ` set cs"
  shows "header_add_commentary key v (cs @ map (commentary_card key) ls)
           = cs @ map (commentary_card key) (ls @ [v])"
proof (cases ls rule: rev_cases)
  case Nil
  with assms show ?thesis by (simp add: header_add_commentary_def commentary_card_def)
next
  case (snoc ls' l)
  then have "key \<in> fst ` set (cs @ map (commentary_card key) ls)"
    by (simp add: commentary_card_def)
  moreover have "insert_after_last (\<lambda>c. fst c = key) (key, v, PyStr []) (cs @ map (commentary_card key) ls)
                  = (cs @ map (commentary_card key) ls) @ [(key, v, PyStr [])]"
    by (rule insert_after_last_end) (simp add: snoc commentary_card_def)
  ultimately show ?thesis by (simp add: header_add_commentary_def commentary_card_def)
qed

lemma add_commentary_all:
  assumes "key \<notin> fst ` set cs"
  shows "foldl (\<lambda>cs l. header_add_commentary key l cs) (cs @ map (commentary_card key) ls0) ls
           = cs @ map (commentary_card key) (ls0 @ ls)"
proof (induction ls arbitrary: ls0)
  case Nil
  show ?case by simp
next
  case (Cons l ls)
  from Cons.IH [of "ls0 @ [l]"] add_commentary_run [OF assms, of l ls0] show ?case by simp
qed

lemma spec_written_keys: "map fst (spec_written hdr)
   = map fst (filter (\<lambda>kv. \<not> py_endswith (fst kv) ''_COMMENT'' \<and> \<not> spec_reserved (fst kv)) hdr)"
  by (simp add: spec_written_def comp_def)

lemma write_headers_ops:
  "write_headers hduobj idiobj =
     hduobj\<lparr>hdu_cards :=
       foldl (\<lambda>cs commline. header_add_commentary ''COMMENT'' commline cs)
         (foldl (\<lambda>cs histline. header_add_commentary ''HISTORY'' histline cs)
            (foldl (\<lambda>cs w. header_setitem (fst w) (snd w) cs)
               (hdu_cards hduobj) (spec_written (idi_header idiobj)))
            (idi_history idiobj))
         (idi_comment idiobj)\<rparr>"
  unfolding write_headers_def spec_written_def write_items_filter ..

lemma write_headers_cards:
  assumes dist: "distinct (map fst (idi_header idiobj))"
      and res: "\<forall>c \<in> set (hdu_cards hduobj). spec_reserved (fst c)"
      and ncm: "\<forall>k \<in> fst ` set (idi_header idiobj). k \<notin> commentary_keywords"
  shows "hdu_cards (write_headers hduobj idiobj) =
            hdu_cards hduobj @ spec_written (idi_header idiobj)
              @ map (commentary_card ''HISTORY'') (idi_history idiobj)
              @ map (commentary_card ''COMMENT'') (idi_comment idiobj)"
proof -
  let ?W = "spec_written (idi_header idiobj)" and ?cs = "hdu_cards hduobj"
  have wk: "fst ` set ?W \<subseteq> {k \<in> fst ` set (idi_header idiobj). \<not> spec_reserved k}"
    by (force simp: spec_written_def)
  have d: "distinct (map fst ?W)"
    using dist by (simp add: spec_written_keys distinct_map_filter)
  have disj: "fst ` set ?W \<inter> fst ` set ?cs = {}"
    using wk res by fastforce
  have wnc: "\<forall>w \<in> set ?W. fst w \<notin> commentary_keywords"
    using wk ncm by blast
  have cnc: "\<forall>c \<in> set ?cs. fst c \<notin> commentary_keywords"
    using res spec_reserved_not_commentary by blast
  have 1: "foldl (\<lambda>cs w. header_setitem (fst w) (snd w) cs) ?cs ?W = ?cs @ ?W"
    by (rule setitems_new [OF d disj wnc cnc])
  have h: "''HISTORY'' \<notin> fst ` set (?cs @ ?W)"
    using wnc cnc by (auto simp: commentary_keywords_def)
  have 2: "foldl (\<lambda>cs l. header_add_commentary ''HISTORY'' l cs) (?cs @ ?W) (idi_history idiobj)
             = (?cs @ ?W) @ map (commentary_card ''HISTORY'') (idi_history idiobj)"
    using add_commentary_all [OF h, of "[]" "idi_history idiobj"] by simp
  have c: "''COMMENT'' \<notin> fst ` set ((?cs @ ?W) @ map (commentary_card ''HISTORY'') (idi_history idiobj))"
    using wnc cnc by (auto simp: commentary_keywords_def commentary_card_def)
  have 3: "foldl (\<lambda>cs l. header_add_commentary ''COMMENT'' l cs)
              ((?cs @ ?W) @ map (commentary_card ''HISTORY'') (idi_history idiobj)) (idi_comment idiobj)
             = ((?cs @ ?W) @ map (commentary_card ''HISTORY'') (idi_history idiobj))
                 @ map (commentary_card ''COMMENT'') (idi_comment idiobj)"
    using add_commentary_all [OF c, of "[]" "idi_comment idiobj"] by simp
  show ?thesis
    using 1 2 3 by (simp add: write_headers_ops)
qed

text \<open>
  C6.  \<^verbatim>\<open>write_headers\<close> changes only the cards of the target unit.  It stores, in the
  order of the entries, one triple (key, value, comment) for every entry whose key neither
  ends with \<^verbatim>\<open>_COMMENT\<close> nor is reserved, the comment being the entry under the key
  followed by \<^verbatim>\<open>_COMMENT\<close>, or empty; nothing is stored for the other entries.  Then it
  adds every history line in order, then every comment line in order.  On a target whose
  cards all carry reserved keys, as those of a new unit do, and with no entry under a
  commentary keyword, the cards afterwards are the old cards, the triples, the history
  cards and the comment cards, in this order.
\<close>

theorem write_headers_exports:
  "write_headers hduobj idiobj =
     hduobj\<lparr>hdu_cards :=
       foldl (\<lambda>cs commline. header_add_commentary ''COMMENT'' commline cs)
         (foldl (\<lambda>cs histline. header_add_commentary ''HISTORY'' histline cs)
            (foldl (\<lambda>cs w. header_setitem (fst w) (snd w) cs)
               (hdu_cards hduobj) (spec_written (idi_header idiobj)))
            (idi_history idiobj))
         (idi_comment idiobj)\<rparr>
   \<and> (distinct (map fst (idi_header idiobj))
        \<and> (\<forall>c \<in> set (hdu_cards hduobj). spec_reserved (fst c))
        \<and> (\<forall>k \<in> fst ` set (idi_header idiobj). k \<notin> commentary_keywords)
      \<longrightarrow> hdu_cards (write_headers hduobj idiobj) =
            hdu_cards hduobj @ spec_written (idi_header idiobj)
              @ map (commentary_card ''HISTORY'') (idi_history idiobj)
              @ map (commentary_card ''COMMENT'') (idi_comment idiobj))"
proof (intro conjI impI)
  show "write_headers hduobj idiobj =
     hduobj\<lparr>hdu_cards :=
       foldl (\<lambda>cs commline. header_add_commentary ''COMMENT'' commline cs)
         (foldl (\<lambda>cs histline. header_add_commentary ''HISTORY'' histline cs)
            (foldl (\<lambda>cs w. header_setitem (fst w) (snd w) cs)
               (hdu_cards hduobj) (spec_written (idi_header idiobj)))
            (idi_history idiobj))
         (idi_comment idiobj)\<rparr>"
    by (rule write_headers_ops)
next
  assume a: "distinct (map fst (idi_header idiobj))
        \<and> (\<forall>c \<in> set (hdu_cards hduobj). spec_reserved (fst c))
        \<and> (\<forall>k \<in> fst ` set (idi_header idiobj). k \<notin> commentary_keywords)"
  then show "hdu_cards (write_headers hduobj idiobj) =
            hdu_cards hduobj @ spec_written (idi_header idiobj)
              @ map (commentary_card ''HISTORY'') (idi_history idiobj)
              @ map (commentary_card ''COMMENT'') (idi_comment idiobj)"
    by (intro write_headers_cards) simp_all
qed

theorem write_headers_exports_witness:
  "distinct (map fst [(''OBSERVER'', PyStr ''E. Hubble''), (''OBSERVER_COMMENT'', PyStr ''who''),
                      (''BITPIX'', PyInt 16), (''TDIM3'', PyStr ''(2,3)''), (''NAXIS1'', PyInt 100),
                      (''EXPTIME'', PyInt 30)])
   \<and> list_all (\<lambda>c. spec_reserved (fst c)) (hdu_cards (PrimaryHDU_new :: (nat list, unit) fits_hdu))
   \<and> hdu_cards (write_headers (PrimaryHDU_new :: (nat list, unit) fits_hdu)
        \<lparr>idi_header = [(''OBSERVER'', PyStr ''E. Hubble''), (''OBSERVER_COMMENT'', PyStr ''who''),
                        (''BITPIX'', PyInt 16), (''TDIM3'', PyStr ''(2,3)''), (''NAXIS1'', PyInt 100),
                        (''EXPTIME'', PyInt 30)],
          idi_history = [PyStr ''h1'', PyStr ''h2''], idi_comment = [PyStr ''c1''],
          idi_body = (IdiPrimaryHdu :: (nat list, unit, unit) idi_body)\<rparr>)
     = [(''SIMPLE'', PyBool True, PyStr ''conforms to FITS standard''),
        (''BITPIX'', PyInt 8, PyStr ''array data type''),
        (''NAXIS'', PyInt 0, PyStr ''number of array dimensions''),
        (''EXTEND'', PyBool True, PyStr []),
        (''OBSERVER'', PyStr ''E. Hubble'', PyStr ''who''),
        (''EXPTIME'', PyInt 30, PyStr []),
        (''HISTORY'', PyStr ''h1'', PyStr []), (''HISTORY'', PyStr ''h2'', PyStr []),
        (''COMMENT'', PyStr ''c1'', PyStr [])]"
  (is "distinct (map fst ?hdr) \<and> list_all _ (hdu_cards ?hdu) \<and> hdu_cards (write_headers ?hdu ?idi) = ?res")
proof -
  have d: "distinct (map fst (idi_header ?idi))" by simp
  have r: "\<forall>c \<in> set (hdu_cards ?hdu). spec_reserved (fst c)" by code_simp
  have n: "\<forall>k \<in> fst ` set (idi_header ?idi). k \<notin> commentary_keywords" by code_simp
  have w: "hdu_cards ?hdu @ spec_written (idi_header ?idi)
             @ map (commentary_card ''HISTORY'') (idi_history ?idi)
             @ map (commentary_card ''COMMENT'') (idi_comment ?idi) = ?res"
    by code_simp
  from write_headers_exports [of ?hdu ?idi] d r n
  have "hdu_cards (write_headers ?hdu ?idi) =
          hdu_cards ?hdu @ spec_written (idi_header ?idi)
             @ map (commentary_card ''HISTORY'') (idi_history ?idi)
             @ map (commentary_card ''COMMENT'') (idi_comment ?idi)"
    by blast
  with w d r show ?thesis by (simp add: list_all_iff)
qed

section \<open>The round trip of headers\<close>



















































section \<open>The round trip of a container\<close>























text \<open>
  The conditions on the container are needed.  In the container below an Image unit with
  an empty array comes first, an Image unit named in small letters with an array of
  unsigned 16-bit integers second, and a Primary unit named LAST third; the header of the
  second unit has a value with trailing blanks and no companion entry.  After export and
  import the Primary unit stands first and is named PRIMARY (line 276 puts it in front and
  gives it no name), the first Image unit has become a Primary unit (line 221 takes a unit
  of size 0 as empty), the second is named in capitals, its value has lost the trailing
  blanks, and its header has gained the companion entry and the entries of the scaling
  cards BSCALE and BZERO.  An array of an element type that the format cannot hold, here
  single-precision complex, makes the codec refuse the document.
\<close>

lemma roundtrip_outside_the_hypotheses:
  "(case create_fits example_units_to_fits typed_array_size
           \<lparr>year = 2026, month = 11, day = 4, hour = 10, minute = 37\<rparr>
           [(''FIRST'', \<lparr>idi_header = [], idi_history = [], idi_comment = [],
                          idi_body = IdiImageHdu (np_int32, [])\<rparr>),
            (''sci'', \<lparr>idi_header = [(''OBSERVER'', PyStr ''E. Hubble  '')],
                        idi_history = [], idi_comment = [],
                        idi_body = IdiImageHdu (np_uint16, [1, 2, 3])\<rparr>),
            (''LAST'', \<lparr>idi_header = [], idi_history = [], idi_comment = [],
                         idi_body = IdiPrimaryHdu\<rparr>)] of
      Inl e \<Rightarrow> Inl e
    | Inr ff \<Rightarrow>
        (case pf_open_written typed_array_type ff of
           Inl e \<Rightarrow> Inl e
         | Inr ff' \<Rightarrow> read_fits typed_group_table events_table_read ff'))
   = Inr [(''PRIMARY'', \<lparr>idi_header = [], idi_history = [],
                          idi_comment = [PyStr ''File written by fits2hdf 2026-37-04T10:37''],
                          idi_body = IdiPrimaryHdu\<rparr>),
          (''FIRST'', \<lparr>idi_header = [], idi_history = [], idi_comment = [],
                        idi_body = IdiPrimaryHdu\<rparr>),
          (''SCI'', \<lparr>idi_header = [(''BSCALE'', PyInt 1), (''BSCALE_COMMENT'', PyStr []),
                                     (''BZERO'', PyInt 32768), (''BZERO_COMMENT'', PyStr []),
                                     (''OBSERVER'', PyStr ''E. Hubble''),
                                     (''OBSERVER_COMMENT'', PyStr [])],
                      idi_history = [], idi_comment = [],
                      idi_body = IdiImageHdu (np_uint16, [1, 2, 3])\<rparr>)]"
  by code_simp

lemma roundtrip_refused_array:
  "(case create_fits example_units_to_fits typed_array_size
           \<lparr>year = 2026, month = 11, day = 4, hour = 10, minute = 37\<rparr>
           [(''PRIMARY'', \<lparr>idi_header = [], idi_history = [], idi_comment = [],
                            idi_body = IdiImageHdu (np_complex64, [1, 2, 3])\<rparr>)] of
      Inl e \<Rightarrow> Inl e
    | Inr ff \<Rightarrow>
        (case pf_open_written typed_array_type ff of
           Inl e \<Rightarrow> Inl e
         | Inr ff' \<Rightarrow> read_fits typed_group_table events_table_read ff'))
   = Inl KeyError"
  by code_simp

end
